theory Spec2Isabelle
  imports Main
begin

section \<open>Python values and helpers of collate.py\<close>

text \<open>
  Strings are \<open>string\<close>. A dictionary is an association list in insertion order whose
  keys are pairwise distinct (a Python dict never holds a key twice); \<open>d.items()\<close> is the
  list itself and \<open>d.keys()\<close> is \<open>map fst d\<close>.

  An argument that may be a scalar or a collection keeps the Python type it came with,
  since \<open>make_list\<close> branches on \<open>type(a) in (list, tuple)\<close>.
\<close>

type_synonym ('k, 'v) dict = "('k \<times> 'v) list"

datatype 'a py_arg = Scalar 'a | PyList "'a list" | PyTuple "'a list"

datatype error = ValueError string | TypeError | AttributeError

text \<open>\<open>[a] if not type(a) in (list, tuple) else list(a)\<close>\<close>

fun make_list :: "'a py_arg \<Rightarrow> 'a list" where
  "make_list (Scalar a) = [a]"
| "make_list (PyList xs) = xs"
| "make_list (PyTuple xs) = xs"

text \<open>\<open>s.replace(c, '')\<close> for a one-character \<open>c\<close>: every occurrence is removed.\<close>

definition remove_char :: "char \<Rightarrow> string \<Rightarrow> string" where
  "remove_char c s = filter (\<lambda>x. x \<noteq> c) s"

definition dquote :: char where
  "dquote = CHR 0x22"

definition squote :: char where
  "squote = CHR 0x27"

text \<open>\<open>name.replace('"', '')\<close>\<close>

definition to_sql_name :: "string \<Rightarrow> string" where
  "to_sql_name name = remove_char dquote name"

text \<open>\<open>str.join(sep, xs)\<close>\<close>

fun join :: "string \<Rightarrow> string list \<Rightarrow> string" where
  "join sep [] = []"
| "join sep [x] = x"
| "join sep (x # y # ys) = x @ sep @ join sep (y # ys)"

text \<open>
  \<open>functools.reduce(f, xs)\<close> with no initial value: a TypeError on an empty sequence,
  otherwise a left fold from the first element, which is returned as it is when it is
  the only one. An exception that a call of \<open>f\<close> raises ends the fold.
\<close>

fun reduce_from :: "('a \<Rightarrow> 'a \<Rightarrow> error + 'a) \<Rightarrow> 'a \<Rightarrow> 'a list \<Rightarrow> error + 'a" where
  "reduce_from f acc [] = Inr acc"
| "reduce_from f acc (x # xs) =
     (case f acc x of
        Inl e \<Rightarrow> Inl e
      | Inr acc' \<Rightarrow> reduce_from f acc' xs)"

fun reduce :: "('a \<Rightarrow> 'a \<Rightarrow> error + 'a) \<Rightarrow> 'a list \<Rightarrow> error + 'a" where
  "reduce f [] = Inl TypeError"
| "reduce f (x # xs) = reduce_from f x xs"

section \<open>The SQL expression objects the code builds\<close>

text \<open>
  The expression library is an external collaborator. Its objects are kept as the
  constructor calls the code makes, unrendered: \<open>ex.literal_column(s)\<close>, \<open>c.label(n)\<close>,
  \<open>ex.table(s)\<close>, \<open>ex.text(s)\<close>, a select with its columns, FROM object, WHERE clause and
  GROUP BY list, and the compound select that the library builds from two operands for
  UNION ALL. A select's column and GROUP BY entries are what the code passes: a plain
  string or a clause object.
\<close>

datatype clause =
    literal_column string
  | Label clause string
  | table string
  | text_clause string
  | Select (select_columns: "sql_arg list") (select_from: clause)
           (select_where: "clause option") (select_group_by: "sql_arg list")
  | CompoundSelect clause clause
and sql_arg = Str string | Clause clause

text \<open>
  \<open>s.union_all(t)\<close>. In the expression library the code is written against,
  \<open>union_all\<close> is a method of a select and returns the compound select of the receiver
  and the operand. The compound select has no such method, nor has any other clause
  object: looking the attribute up on them raises an AttributeError. The operands of a
  dictionary of selects supplied by the caller are taken to be ones the library accepts
  (selects of as many columns as the receiver, like the selects of one group that
  \<open>get_selects\<close> builds).
\<close>

fun union_all :: "clause \<Rightarrow> clause \<Rightarrow> error + clause" where
  "union_all (Select columns from_clause where_clause group_by) t =
     Inr (CompoundSelect (Select columns from_clause where_clause group_by) t)"
| "union_all s t = Inl AttributeError"

text \<open>\<open>constructor(s)\<close> unless \<open>s\<close> is already a clause object.\<close>

fun make_sql_clause :: "sql_arg \<Rightarrow> (string \<Rightarrow> clause) \<Rightarrow> clause" where
  "make_sql_clause (Str s) constructor = constructor s"
| "make_sql_clause (Clause c) constructor = c"

text \<open>
  \<open>str(x)\<close> of a FROM argument: a string is itself, a clause object is rendered by the
  expression library's compiler, a parameter \<open>str_clause\<close> of the model.
\<close>

fun str_arg :: "(clause \<Rightarrow> string) \<Rightarrow> sql_arg \<Rightarrow> string" where
  "str_arg str_clause (Str s) = s"
| "str_arg str_clause (Clause c) = str_clause c"

text \<open>The class \<open>CreateTableAs\<close> and its compilation rule \<open>_create_table_as\<close>.\<close>

datatype CreateTableAs = CreateTableAs (name: string) (query: clause)

definition create_table_as :: "(clause \<Rightarrow> string) \<Rightarrow> CreateTableAs \<Rightarrow> string" where
  "create_table_as process element =
     ''CREATE TABLE '' @ name element @ '' AS '' @ process (query element)"

section \<open>Aggregate\<close>

record Aggregate =
  quantities :: "string list"
  "functions" :: "string list"
  quantity_names :: "string list"

definition Aggregate_init ::
  "string py_arg \<Rightarrow> string py_arg \<Rightarrow> string py_arg option \<Rightarrow> error + Aggregate" where
  "Aggregate_init quantity function name_arg =
     (let qs = make_list quantity; fs = make_list function in
      case name_arg of
        Some n \<Rightarrow>
          (let ns = make_list n in
           if length ns \<noteq> length qs
           then Inl (ValueError ''Name length doesn't match quantity length'')
           else Inr \<lparr>quantities = qs, functions = fs, quantity_names = ns\<rparr>)
      | None \<Rightarrow>
          Inr \<lparr>quantities = qs, functions = fs,
               quantity_names = map (remove_char dquote) qs\<rparr>)"

text \<open>
  The body of the loop of \<open>get_columns\<close>: the column of one function and one
  (quantity, quantity name) pair, from the two templates.
\<close>

definition get_column ::
  "string option \<Rightarrow> string \<Rightarrow> string \<Rightarrow> string \<Rightarrow> string \<Rightarrow> clause" where
  "get_column when pfx function quantity quantity_name =
     (let column = (case when of
                      None \<Rightarrow> function @ ''('' @ quantity @ '')''
                    | Some w \<Rightarrow> function @ ''(CASE WHEN '' @ w @ '' THEN '' @ quantity @ '' END)'');
          name = pfx @ quantity_name @ ''_'' @ function
      in Label (literal_column column) (to_sql_name name))"

text \<open>
  The generator, as the list of what it yields:
  \<open>product(self.functions, zip(self.quantities, self.quantity_names))\<close>.
\<close>

definition get_columns :: "Aggregate \<Rightarrow> string option \<Rightarrow> string option \<Rightarrow> clause list" where
  "get_columns a when prefix_arg =
     (let pfx = (case prefix_arg of None \<Rightarrow> '''' | Some p \<Rightarrow> p) in
      map (\<lambda>(function, (quantity, quantity_name)).
             get_column when pfx function quantity quantity_name)
          (List.product (functions a) (zip (quantities a) (quantity_names a))))"

section \<open>SpacetimeAggregation\<close>

record SpacetimeAggregation =
  aggregates :: "Aggregate list"
  from_obj :: clause
  group_intervals :: "(string, string list) dict"
  dates :: "string list"
  prefix :: string
  suffix :: string
  date_column :: string

text \<open>\<open>x if x else d\<close> on an optional string: None and the empty string are both false.\<close>

fun or_default :: "string option \<Rightarrow> string \<Rightarrow> string" where
  "or_default None d = d"
| "or_default (Some s) d = (if s = [] then d else s)"

definition SpacetimeAggregation_init ::
  "(clause \<Rightarrow> string) \<Rightarrow> Aggregate list \<Rightarrow> (string, string list) dict \<Rightarrow> sql_arg \<Rightarrow>
   string list \<Rightarrow> string option \<Rightarrow> string option \<Rightarrow> string option \<Rightarrow> SpacetimeAggregation" where
  "SpacetimeAggregation_init str_clause aggs gi from_arg ds prefix_arg suffix_arg date_column_arg =
     \<lparr>aggregates = aggs,
      from_obj = make_sql_clause from_arg table,
      group_intervals = gi,
      dates = ds,
      prefix = or_default prefix_arg (str_arg str_clause from_arg),
      suffix = or_default suffix_arg ''aggregation'',
      date_column = or_default date_column_arg ''date''\<rparr>"

text \<open>\<open>self.groups = group_intervals.keys()\<close>\<close>

definition groups :: "SpacetimeAggregation \<Rightarrow> string list" where
  "groups p = map fst (group_intervals p)"

definition get_aggregates_sql ::
  "SpacetimeAggregation \<Rightarrow> string \<Rightarrow> string \<Rightarrow> string \<Rightarrow> clause list" where
  "get_aggregates_sql p interval date grp =
     (let when = (if interval \<noteq> ''all''
                  then Some ([squote] @ date @ [squote] @ '' <= '' @ date_column p @
                             '' + interval '' @ [squote] @ interval @ [squote])
                  else None);
          pfx = prefix p @ ''_'' @ grp @ ''_'' @ remove_char CHR '' '' interval @ ''_''
      in concat (map (\<lambda>a. get_columns a when (Some pfx)) (aggregates p)))"

text \<open>One iteration of the inner loop of \<open>get_selects\<close>: the select of one group and date.\<close>

definition get_select ::
  "SpacetimeAggregation \<Rightarrow> string \<Rightarrow> string list \<Rightarrow> string \<Rightarrow> clause" where
  "get_select p grp intervals date =
     (let columns = [Str grp,
                     Clause (Label (literal_column ([squote] @ date @ [squote] @ ''::date'')) ''date'')]
                    @ map Clause (concat (map (\<lambda>i. get_aggregates_sql p i date grp) intervals));
          where_clause = text_clause (date_column p @ '' < '' @ [squote] @ date @ [squote]);
          gb_clause = make_sql_clause (Str grp) literal_column
      in Select columns (from_obj p) (Some where_clause) [Clause gb_clause])"

definition get_selects :: "SpacetimeAggregation \<Rightarrow> (string, clause list) dict" where
  "get_selects p =
     map (\<lambda>(grp, intervals). (grp, map (get_select p grp intervals) (dates p)))
         (group_intervals p)"

definition get_table_name :: "SpacetimeAggregation \<Rightarrow> string \<Rightarrow> string" where
  "get_table_name p grp = [dquote] @ to_sql_name (prefix p @ ''_'' @ grp) @ [dquote]"

text \<open>
  The first comprehension of \<open>get_creates\<close>, \<open>{group: reduce(..., sels) for ...}\<close>: the
  first group whose fold raises ends the call with that exception.
\<close>

fun union_selects :: "(string, clause list) dict \<Rightarrow> error + (string, clause) dict" where
  "union_selects [] = Inr []"
| "union_selects ((grp, sels) # rest) =
     (case reduce union_all sels of
        Inl e \<Rightarrow> Inl e
      | Inr s \<Rightarrow> (case union_selects rest of
                   Inl e \<Rightarrow> Inl e
                 | Inr d \<Rightarrow> Inr ((grp, s) # d)))"

text \<open>\<open>if not selects\<close>: None and the empty dictionary both fall back to \<open>get_selects()\<close>.\<close>

definition get_creates ::
  "SpacetimeAggregation \<Rightarrow> (string, clause list) dict option \<Rightarrow>
   error + (string, CreateTableAs) dict" where
  "get_creates p selects_arg =
     (let selects = (case selects_arg of
                       None \<Rightarrow> get_selects p
                     | Some d \<Rightarrow> if d = [] then get_selects p else d)
      in case union_selects selects of
           Inl e \<Rightarrow> Inl e
         | Inr unions \<Rightarrow>
             Inr (map (\<lambda>(grp, select). (grp, CreateTableAs (get_table_name p grp) select))
                      unions))"

definition get_drops :: "SpacetimeAggregation \<Rightarrow> (string, string) dict" where
  "get_drops p =
     map (\<lambda>grp. (grp, ''DROP TABLE IF EXISTS '' @ get_table_name p grp @ '';''))
         (groups p)"

definition get_indexes :: "SpacetimeAggregation \<Rightarrow> (string, string) dict" where
  "get_indexes p =
     map (\<lambda>grp. (grp, ''CREATE INDEX ON '' @ get_table_name p grp @
                           '' ('' @ grp @ '', '' @ ''date'' @ '');''))
         (groups p)"

definition get_join_table :: "SpacetimeAggregation \<Rightarrow> clause" where
  "get_join_table p = Select (map Str (groups p)) (from_obj p) None (map Str (groups p))"

definition get_create ::
  "(clause \<Rightarrow> string) \<Rightarrow> SpacetimeAggregation \<Rightarrow> string option \<Rightarrow> string" where
  "get_create str_clause p join_table_arg =
     (let join_table = or_default join_table_arg
                         (''('' @ str_clause (get_join_table p) @ '') t1'');
          name = prefix p @ ''_'' @ suffix p;
          query = ''SELECT * FROM '' @ join_table @ [CHR 0x0A] @
                  ''CROSS JOIN (select unnest('' @ [squote] @ ''{'' @ join '','' (dates p) @
                  ''}'' @ [squote] @ ''::date[]) as date) t2'' @ [CHR 0x0A] @
                  concat (map (\<lambda>grp. ''LEFT JOIN '' @ get_table_name p grp @
                                         '' USING ('' @ grp @ '', date)'')
                              (groups p))
      in ''CREATE TABLE '' @ name @ '' AS ('' @ query @ '');'')"

definition get_drop :: "SpacetimeAggregation \<Rightarrow> string" where
  "get_drop p = ''DROP TABLE IF EXISTS '' @ prefix p @ ''_'' @ suffix p"

section \<open>Observations on the generated objects\<close>

text \<open>
  The name a column entry of a select has in the result: the label of a labeled
  column, the text of a plain string or literal column.
\<close>

fun column_name :: "sql_arg \<Rightarrow> string option" where
  "column_name (Str s) = Some s"
| "column_name (Clause (Label c n)) = Some n"
| "column_name (Clause (literal_column s)) = Some s"
| "column_name (Clause c) = None"

text \<open>
  The plan of the end-to-end example: one Aggregate of the quantity \<open>amount\<close> with the
  functions \<open>sum\<close> and \<open>count\<close>, the group \<open>id\<close> with the intervals \<open>1 month\<close> and
  \<open>all\<close>, two dates, built on the table \<open>t\<close> with the defaults.
\<close>

definition example_plan :: SpacetimeAggregation where
  "example_plan =
     \<lparr>aggregates = [\<lparr>quantities = [''amount''], functions = [''sum'', ''count''],
                      quantity_names = [''amount'']\<rparr>],
      from_obj = table ''t'',
      group_intervals = [(''id'', [''1 month'', ''all''])],
      dates = [''2016-01-01'', ''2016-02-01''],
      prefix = ''t'',
      suffix = ''aggregation'',
      date_column = ''date''\<rparr>"

text \<open>
  A plan whose group key is an expression over a quoted identifier and whose quantity
  name holds quote characters.
\<close>

definition quoted_plan :: SpacetimeAggregation where
  "quoted_plan =
     \<lparr>aggregates = [\<lparr>quantities = [''amount''], functions = [''sum''],
                      quantity_names = [[dquote] @ ''Total'' @ [dquote]]\<rparr>],
      from_obj = table ''t'',
      group_intervals = [(''lower('' @ [dquote] @ ''Name'' @ [dquote] @ '')'', [''all''])],
      dates = [''2016-01-01''],
      prefix = ''t'',
      suffix = ''aggregation'',
      date_column = ''date''\<rparr>"

text \<open>
  The example plan with a third reference date, and a plan of two groups and three
  reference dates.
\<close>

definition three_dates_plan :: SpacetimeAggregation where
  "three_dates_plan = example_plan\<lparr>dates := [''2016-01-01'', ''2016-02-01'', ''2016-03-01'']\<rparr>"

definition events_plan :: SpacetimeAggregation where
  "events_plan =
     \<lparr>aggregates = [\<lparr>quantities = [''amount'', ''fee''], functions = [''avg''],
                      quantity_names = [''amount'', ''fee'']\<rparr>],
      from_obj = table ''events'',
      group_intervals = [(''id'', [''1 month'']), (''zip'', [''all'', ''1 year''])],
      dates = [''2016-01-01'', ''2016-02-01'', ''2016-03-01''],
      prefix = ''events'',
      suffix = ''aggregation'',
      date_column = ''date''\<rparr>"

section \<open>Column expansion of an Aggregate\<close>

lemma Aggregate_init_Inr:
  assumes "Aggregate_init quantity function name_arg = Inr a"
  shows "quantities a = make_list quantity"
    and "functions a = make_list function"
    and "quantity_names a =
           (case name_arg of Some n \<Rightarrow> make_list n
                           | None \<Rightarrow> map (remove_char dquote) (make_list quantity))"
    and "length (quantity_names a) = length (make_list quantity)"
  using assms
  by (auto simp: Aggregate_init_def Let_def split: option.splits if_splits)

lemma product_nth_major:
  assumes "i < length xs" and "j < length ys"
  shows "i * length ys + j < length xs * length ys"
    and "List.product xs ys ! (i * length ys + j) = (xs ! i, ys ! j)"
proof -
  have "i * length ys + j < i * length ys + length ys"
    using assms(2) by simp
  also have "\<dots> = Suc i * length ys"
    by simp
  also have "\<dots> \<le> length xs * length ys"
    using assms(1) by (intro mult_le_mono1) simp
  finally show bound: "i * length ys + j < length xs * length ys" .
  have "length ys \<noteq> 0"
    using assms(2) by auto
  then show "List.product xs ys ! (i * length ys + j) = (xs ! i, ys ! j)"
    using assms(2) by (simp add: product_nth [OF bound])
qed

lemma map_product_nth:
  assumes "i < length xs" and "j < length ys"
  shows "map g (List.product xs ys) ! (i * length ys + j) = g (xs ! i, ys ! j)"
  using product_nth_major [OF assms] by simp

lemma remove_dquote: "remove_char dquote = filter (\<lambda>c. c \<noteq> CHR 0x22)"
  by (rule ext) (simp add: remove_char_def dquote_def)

text \<open>
  C1. An Aggregate is constructed from a function argument and a quantity argument, each
  a scalar, a list or a tuple; a scalar stands for the one-element collection that holds
  it, a list or tuple for its elements. With \<open>fs\<close> the functions and \<open>qs\<close> the quantities
  so obtained, every call of \<open>get_columns\<close> yields \<open>length fs * length qs\<close> labeled
  columns, whatever the filter predicate and the prefix. The names are the ones supplied
  (again a scalar for a one-element collection), or the quantities with quote characters
  removed, and there are as many as quantities. The enumeration is function-major: the
  column at position \<open>i * length qs + j\<close> is the expression of the i-th function on the
  j-th quantity, labeled with the j-th name, so quantities and names are paired by
  position.
\<close>

theorem get_columns_cross_product:
  assumes "Aggregate_init quantity function name_arg = Inr a"
    and "fs = (case function of Scalar f \<Rightarrow> [f] | PyList xs \<Rightarrow> xs | PyTuple xs \<Rightarrow> xs)"
    and "qs = (case quantity of Scalar q \<Rightarrow> [q] | PyList xs \<Rightarrow> xs | PyTuple xs \<Rightarrow> xs)"
  shows "length (get_columns a when prefix_arg) = length fs * length qs
       \<and> quantity_names a =
           (case name_arg of
              Some (Scalar n) \<Rightarrow> [n]
            | Some (PyList ns) \<Rightarrow> ns
            | Some (PyTuple ns) \<Rightarrow> ns
            | None \<Rightarrow> map (filter (\<lambda>c. c \<noteq> CHR 0x22)) qs)
       \<and> length (quantity_names a) = length qs
       \<and> (\<forall>i < length fs. \<forall>j < length qs.
             get_columns a when prefix_arg ! (i * length qs + j) =
               Label (literal_column
                        (case when of
                           None \<Rightarrow> fs ! i @ ''('' @ qs ! j @ '')''
                         | Some w \<Rightarrow> fs ! i @ ''(CASE WHEN '' @ w @ '' THEN '' @ qs ! j @ '' END)''))
                     (filter (\<lambda>c. c \<noteq> CHR 0x22)
                        ((case prefix_arg of None \<Rightarrow> [] | Some s \<Rightarrow> s) @
                         quantity_names a ! j @ ''_'' @ fs ! i)))"
proof -
  have mf: "make_list function = fs"
    using assms(2) by (cases "function") simp_all
  have mq: "make_list quantity = qs"
    using assms(3) by (cases quantity) simp_all
  note init = Aggregate_init_Inr [OF assms(1)]
  have fa: "functions a = fs"
    by (simp add: init(2) mf)
  have qa: "quantities a = qs"
    by (simp add: init(1) mq)
  have len_names: "length (quantity_names a) = length qs"
    by (simp add: init(4) mq)
  have names: "quantity_names a =
           (case name_arg of
              Some (Scalar n) \<Rightarrow> [n]
            | Some (PyList ns) \<Rightarrow> ns
            | Some (PyTuple ns) \<Rightarrow> ns
            | None \<Rightarrow> map (filter (\<lambda>c. c \<noteq> CHR 0x22)) qs)"
  proof (cases name_arg)
    case None
    then show ?thesis
      by (simp add: init(3) mq remove_dquote)
  next
    case (Some n)
    then show ?thesis
      by (cases n) (simp_all add: init(3))
  qed
  define zs where "zs = zip (quantities a) (quantity_names a)"
  define g where "g = (\<lambda>(f, (q, n)).
    get_column when (case prefix_arg of None \<Rightarrow> [] | Some s \<Rightarrow> s) f q n)"
  have cols: "get_columns a when prefix_arg = map g (List.product fs zs)"
    by (simp add: get_columns_def zs_def g_def fa)
  have len_zs: "length zs = length qs"
    by (simp add: zs_def qa len_names)
  have nth_zs: "zs ! j = (qs ! j, quantity_names a ! j)" if "j < length qs" for j
    using that by (simp add: zs_def qa len_names)
  have len: "length (get_columns a when prefix_arg) = length fs * length qs"
    by (simp add: cols len_zs)
  have nth: "get_columns a when prefix_arg ! (i * length qs + j) =
               Label (literal_column
                        (case when of
                           None \<Rightarrow> fs ! i @ ''('' @ qs ! j @ '')''
                         | Some w \<Rightarrow> fs ! i @ ''(CASE WHEN '' @ w @ '' THEN '' @ qs ! j @ '' END)''))
                     (filter (\<lambda>c. c \<noteq> CHR 0x22)
                        ((case prefix_arg of None \<Rightarrow> [] | Some s \<Rightarrow> s) @
                         quantity_names a ! j @ ''_'' @ fs ! i))"
    if i: "i < length fs" and j: "j < length qs" for i j
  proof -
    from j have j': "j < length zs"
      by (simp add: len_zs)
    have "map g (List.product fs zs) ! (i * length zs + j) = g (fs ! i, zs ! j)"
      by (rule map_product_nth [OF i j'])
    then have "get_columns a when prefix_arg ! (i * length qs + j) =
                 get_column when (case prefix_arg of None \<Rightarrow> [] | Some s \<Rightarrow> s)
                   (fs ! i) (qs ! j) (quantity_names a ! j)"
      by (simp add: cols len_zs nth_zs [OF j] g_def)
    then show ?thesis
      by (simp add: get_column_def to_sql_name_def remove_char_def dquote_def)
  qed
  have nth_all: "\<forall>i < length fs. \<forall>j < length qs.
             get_columns a when prefix_arg ! (i * length qs + j) =
               Label (literal_column
                        (case when of
                           None \<Rightarrow> fs ! i @ ''('' @ qs ! j @ '')''
                         | Some w \<Rightarrow> fs ! i @ ''(CASE WHEN '' @ w @ '' THEN '' @ qs ! j @ '' END)''))
                     (filter (\<lambda>c. c \<noteq> CHR 0x22)
                        ((case prefix_arg of None \<Rightarrow> [] | Some s \<Rightarrow> s) @
                         quantity_names a ! j @ ''_'' @ fs ! i))"
    by (intro allI impI) (rule nth)
  from len names len_names nth_all show ?thesis
    by (intro conjI)
qed

text \<open>
  Two quantities with their names and three functions: six columns, and the one at
  position \<open>1 * 2 + 1\<close> is \<open>count(fee)\<close>, labeled with the second name. A scalar quantity
  and a scalar function with no name: one column.
\<close>

theorem get_columns_cross_product_witness:
  "Aggregate_init (PyList [''amount'', ''fee'']) (PyTuple [''sum'', ''count'', ''avg''])
       (Some (PyList [''a'', ''f''])) =
     Inr \<lparr>quantities = [''amount'', ''fee''], functions = [''sum'', ''count'', ''avg''],
          quantity_names = [''a'', ''f'']\<rparr>
   \<and> length (get_columns \<lparr>quantities = [''amount'', ''fee''],
                functions = [''sum'', ''count'', ''avg''], quantity_names = [''a'', ''f'']\<rparr>
              None None) = 6
   \<and> get_columns \<lparr>quantities = [''amount'', ''fee''],
        functions = [''sum'', ''count'', ''avg''], quantity_names = [''a'', ''f'']\<rparr> None None ! 3 =
       Label (literal_column ''count(fee)'') ''f_count''
   \<and> Aggregate_init (Scalar ''amount'') (Scalar ''sum'') None =
     Inr \<lparr>quantities = [''amount''], functions = [''sum''], quantity_names = [''amount'']\<rparr>
   \<and> length (get_columns \<lparr>quantities = [''amount''], functions = [''sum''],
                quantity_names = [''amount'']\<rparr> (Some ''fee > 0'') (Some ''p_'')) = 1
   \<and> get_columns \<lparr>quantities = [''amount''], functions = [''sum''],
        quantity_names = [''amount'']\<rparr> (Some ''fee > 0'') (Some ''p_'') ! 0 =
       Label (literal_column ''sum(CASE WHEN fee > 0 THEN amount END)'') ''p_amount_sum''"
proof -
  let ?a = "\<lparr>quantities = [''amount'', ''fee''], functions = [''sum'', ''count'', ''avg''],
             quantity_names = [''a'', ''f'']\<rparr>"
  let ?b = "\<lparr>quantities = [''amount''], functions = [''sum''], quantity_names = [''amount'']\<rparr>"
  have init: "Aggregate_init (PyList [''amount'', ''fee'']) (PyTuple [''sum'', ''count'', ''avg''])
                (Some (PyList [''a'', ''f''])) = Inr ?a"
    by (simp add: Aggregate_init_def)
  have init_scalar: "Aggregate_init (Scalar ''amount'') (Scalar ''sum'') None = Inr ?b"
    by (simp add: Aggregate_init_def Let_def remove_char_def dquote_def)
  note t = get_columns_cross_product [OF init refl refl, of None None]
  note u = get_columns_cross_product [OF init_scalar refl refl, of "Some ''fee > 0''" "Some ''p_''"]
  from t have 1: "length (get_columns ?a None None) = 6"
    by simp
  have "get_columns ?a None None ! (1 * length [''amount'', ''fee''] + 1) =
      Label (literal_column ''count(fee)'') ''f_count''"
    using t [THEN conjunct2, THEN conjunct2, THEN conjunct2, rule_format, of 1 1] by simp
  moreover have "1 * length [''amount'', ''fee''] + 1 = 3"
    by simp
  ultimately have 2: "get_columns ?a None None ! 3 =
      Label (literal_column ''count(fee)'') ''f_count''"
    by (simp only:)
  from u have 3: "length (get_columns ?b (Some ''fee > 0'') (Some ''p_'')) = 1"
    by simp
  have 4: "get_columns ?b (Some ''fee > 0'') (Some ''p_'') ! 0 =
       Label (literal_column ''sum(CASE WHEN fee > 0 THEN amount END)'') ''p_amount_sum''"
    using u [THEN conjunct2, THEN conjunct2, THEN conjunct2, rule_format, of 0 0] by simp
  from init 1 2 init_scalar 3 4 show ?thesis
    by (intro conjI)
qed

text \<open>
  C6. Constructing an Aggregate raises exactly when a name argument is supplied whose
  length (one for a scalar) differs from the number of quantities, and the error is then
  the ValueError of the length mismatch; in every other case, names omitted included,
  construction returns an Aggregate. When it raises there is no Aggregate to expand:
  asking the result of the construction for its columns gives the same error, for every
  predicate and prefix.
\<close>

theorem Aggregate_init_error_iff:
  "(isl (Aggregate_init quantity function name_arg) \<longleftrightarrow>
      (\<exists>n. name_arg = Some n \<and> length (make_list n) \<noteq> length (make_list quantity)))
   \<and> (isl (Aggregate_init quantity function name_arg) \<longleftrightarrow>
        Aggregate_init quantity function name_arg =
          Inl (ValueError ''Name length doesn't match quantity length''))
   \<and> (isl (Aggregate_init quantity function name_arg) \<longleftrightarrow>
        (case Aggregate_init quantity function name_arg of
           Inl e \<Rightarrow> Inl e
         | Inr a \<Rightarrow> Inr (get_columns a when prefix_arg)) =
          Inl (ValueError ''Name length doesn't match quantity length''))"
  by (auto simp: Aggregate_init_def Let_def split: option.splits)

lemma map_product_concat:
  "map (case_prod g) (List.product xs ys) = concat (map (\<lambda>x. map (g x) ys) xs)"
  by (induction xs) simp_all

text \<open>
  C9. The columns of \<open>get_columns\<close>, one for every function f and every zipped pair of a
  quantity q and its name n: without a filter predicate the expression is \<open>f(q)\<close>, with
  a predicate w it is \<open>f(CASE WHEN w THEN q END)\<close>, and in both cases the label is the
  prefix (empty when none is given), n, an underscore and f, with every quote character
  removed from the whole.
\<close>

theorem get_columns_rendering:
  "get_columns a None prefix_arg =
     [Label (literal_column (f @ ''('' @ q @ '')''))
            (filter (\<lambda>c. c \<noteq> CHR 0x22)
               ((case prefix_arg of None \<Rightarrow> [] | Some s \<Rightarrow> s) @ n @ ''_'' @ f)).
        f \<leftarrow> functions a, (q, n) \<leftarrow> zip (quantities a) (quantity_names a)]
   \<and> get_columns a (Some w) prefix_arg =
     [Label (literal_column (f @ ''(CASE WHEN '' @ w @ '' THEN '' @ q @ '' END)''))
            (filter (\<lambda>c. c \<noteq> CHR 0x22)
               ((case prefix_arg of None \<Rightarrow> [] | Some s \<Rightarrow> s) @ n @ ''_'' @ f)).
        f \<leftarrow> functions a, (q, n) \<leftarrow> zip (quantities a) (quantity_names a)]"
  by (simp add: get_columns_def get_column_def to_sql_name_def remove_char_def dquote_def
      map_product_concat)

section \<open>Window predicate and column prefix\<close>

lemma get_aggregates_sql_all:
  "get_aggregates_sql p ''all'' date grp =
     concat (map (\<lambda>a. get_columns a None (Some (prefix p @ ''_'' @ grp @ ''_all_'')))
                 (aggregates p))"
  by (simp add: get_aggregates_sql_def remove_char_def)

lemma get_aggregates_sql_interval:
  "interval \<noteq> ''all'' \<Longrightarrow>
   get_aggregates_sql p interval date grp =
     concat (map (\<lambda>a. get_columns a
                    (Some ([squote] @ date @ [squote] @ '' <= '' @ date_column p @
                           '' + interval '' @ [squote] @ interval @ [squote]))
                    (Some (prefix p @ ''_'' @ grp @ ''_'' @
                           filter (\<lambda>c. c \<noteq> CHR '' '') interval @ ''_'')))
                 (aggregates p))"
  by (simp add: get_aggregates_sql_def remove_char_def)

text \<open>
  C2. For the interval \<open>all\<close>, \<open>_get_aggregates_sql\<close> passes no filter predicate to the
  Aggregates, so that every column is the unconditional \<open>f(q)\<close>. For any other interval
  the predicate is the quoted reference date, \<open><=\<close>, the date column plus the quoted
  interval. In both cases the prefix handed down is the plan's prefix, the group and the
  interval with its spaces removed, each followed by an underscore.
\<close>

theorem get_aggregates_sql_window:
  "get_aggregates_sql p ''all'' date grp =
     concat (map (\<lambda>a. get_columns a None (Some (prefix p @ ''_'' @ grp @ ''_all_'')))
                 (aggregates p))
   \<and> get_aggregates_sql p ''all'' date grp =
       [Label (literal_column (f @ ''('' @ q @ '')''))
              (to_sql_name (prefix p @ ''_'' @ grp @ ''_all_'' @ n @ ''_'' @ f)).
          a \<leftarrow> aggregates p, f \<leftarrow> functions a,
          (q, n) \<leftarrow> zip (quantities a) (quantity_names a)]
   \<and> (interval \<noteq> ''all'' \<longrightarrow>
        get_aggregates_sql p interval date grp =
          concat (map (\<lambda>a. get_columns a
                         (Some ([squote] @ date @ [squote] @ '' <= '' @ date_column p @
                                '' + interval '' @ [squote] @ interval @ [squote]))
                         (Some (prefix p @ ''_'' @ grp @ ''_'' @
                                filter (\<lambda>c. c \<noteq> CHR '' '') interval @ ''_'')))
                      (aggregates p)))"
proof -
  have "get_aggregates_sql p ''all'' date grp =
       [Label (literal_column (f @ ''('' @ q @ '')''))
              (to_sql_name (prefix p @ ''_'' @ grp @ ''_all_'' @ n @ ''_'' @ f)).
          a \<leftarrow> aggregates p, f \<leftarrow> functions a,
          (q, n) \<leftarrow> zip (quantities a) (quantity_names a)]"
    by (simp add: get_aggregates_sql_all get_columns_def get_column_def map_product_concat)
  then show ?thesis
    using get_aggregates_sql_all get_aggregates_sql_interval by blast
qed

text \<open>The example plan, for the interval \<open>1 month\<close> and for \<open>all\<close>.\<close>

theorem get_aggregates_sql_window_witness:
  "get_aggregates_sql example_plan ''1 month'' ''2016-01-01'' ''id'' =
     [Label (literal_column
               ''sum(CASE WHEN '2016-01-01' <= date + interval '1 month' THEN amount END)'')
            ''t_id_1month_amount_sum'',
      Label (literal_column
               ''count(CASE WHEN '2016-01-01' <= date + interval '1 month' THEN amount END)'')
            ''t_id_1month_amount_count'']
   \<and> get_aggregates_sql example_plan ''all'' ''2016-01-01'' ''id'' =
     [Label (literal_column ''sum(amount)'') ''t_id_all_amount_sum'',
      Label (literal_column ''count(amount)'') ''t_id_all_amount_count'']"
  using get_aggregates_sql_window [of example_plan "''2016-01-01''" "''id''" "''1 month''"]
  by (simp add: example_plan_def get_columns_def get_column_def to_sql_name_def
      remove_char_def dquote_def squote_def)

section \<open>Selects per group and date\<close>

lemma map_of_map_keyed:
  "map_of (map (\<lambda>(k, v). (k, f k v)) xs) k' = map_option (f k') (map_of xs k')"
  by (induction xs) auto

lemma map_of_get_selects:
  "map_of (get_selects p) grp =
     map_option (\<lambda>intervals. map (get_select p grp intervals) (dates p))
       (map_of (group_intervals p) grp)"
  by (simp add: get_selects_def map_of_map_keyed)

text \<open>
  C3. For a group key of \<open>group_intervals\<close> with its intervals, \<open>get_selects\<close> holds
  under that key one select for every reference date, in the order of the dates. Its
  columns are the raw group key, the quoted date cast to a date and labeled \<open>date\<close>,
  then the aggregate columns of every Aggregate for every interval of the group; its
  FROM is the plan's source; its WHERE is the strict cutoff of the date column below the
  quoted date; its GROUP BY is the raw group key as a literal column.
\<close>

theorem get_selects_select:
  assumes "map_of (group_intervals p) grp = Some intervals"
  shows "map_of (get_selects p) grp =
    Some (map (\<lambda>date.
      Select ([Str grp,
               Clause (Label (literal_column ([squote] @ date @ [squote] @ ''::date'')) ''date'')]
              @ map Clause (concat (map (\<lambda>i. get_aggregates_sql p i date grp) intervals)))
             (from_obj p)
             (Some (text_clause (date_column p @ '' < '' @ [squote] @ date @ [squote])))
             [Clause (literal_column grp)])
      (dates p))"
  using assms by (simp add: map_of_get_selects get_select_def)

text \<open>The two selects of the example plan.\<close>

theorem get_selects_select_witness:
  "map_of (group_intervals example_plan) ''id'' = Some [''1 month'', ''all'']
   \<and> map_of (get_selects example_plan) ''id'' =
     Some [Select [Str ''id'',
                   Clause (Label (literal_column '''2016-01-01'::date'') ''date''),
                   Clause (Label (literal_column
                     ''sum(CASE WHEN '2016-01-01' <= date + interval '1 month' THEN amount END)'')
                     ''t_id_1month_amount_sum''),
                   Clause (Label (literal_column
                     ''count(CASE WHEN '2016-01-01' <= date + interval '1 month' THEN amount END)'')
                     ''t_id_1month_amount_count''),
                   Clause (Label (literal_column ''sum(amount)'') ''t_id_all_amount_sum''),
                   Clause (Label (literal_column ''count(amount)'') ''t_id_all_amount_count'')]
                  (table ''t'')
                  (Some (text_clause (''date < '2016-01-01'' @ [squote])))
                  [Clause (literal_column ''id'')],
           Select [Str ''id'',
                   Clause (Label (literal_column '''2016-02-01'::date'') ''date''),
                   Clause (Label (literal_column
                     ''sum(CASE WHEN '2016-02-01' <= date + interval '1 month' THEN amount END)'')
                     ''t_id_1month_amount_sum''),
                   Clause (Label (literal_column
                     ''count(CASE WHEN '2016-02-01' <= date + interval '1 month' THEN amount END)'')
                     ''t_id_1month_amount_count''),
                   Clause (Label (literal_column ''sum(amount)'') ''t_id_all_amount_sum''),
                   Clause (Label (literal_column ''count(amount)'') ''t_id_all_amount_count'')]
                  (table ''t'')
                  (Some (text_clause (''date < '2016-02-01'' @ [squote])))
                  [Clause (literal_column ''id'')]]"
proof -
  have h: "map_of (group_intervals example_plan) ''id'' = Some [''1 month'', ''all'']"
    by (simp add: example_plan_def)
  have d: "dates example_plan = [''2016-01-01'', ''2016-02-01'']"
       "from_obj example_plan = table ''t''" "date_column example_plan = ''date''"
    by (simp_all add: example_plan_def)
  have a: "get_aggregates_sql example_plan ''1 month'' date ''id'' =
     [Label (literal_column
               (''sum(CASE WHEN '' @ [squote] @ date @ [squote] @
                '' <= date + interval '1 month' THEN amount END)''))
            ''t_id_1month_amount_sum'',
      Label (literal_column
               (''count(CASE WHEN '' @ [squote] @ date @ [squote] @
                '' <= date + interval '1 month' THEN amount END)''))
            ''t_id_1month_amount_count'']"
     "get_aggregates_sql example_plan ''all'' date ''id'' =
     [Label (literal_column ''sum(amount)'') ''t_id_all_amount_sum'',
      Label (literal_column ''count(amount)'') ''t_id_all_amount_count'']" for date
    by (simp_all add: get_aggregates_sql_def example_plan_def get_columns_def get_column_def
        to_sql_name_def remove_char_def dquote_def squote_def)
  show ?thesis
    using get_selects_select [OF h] h
    by (simp add: d a squote_def)
qed

lemma column_name_get_columns:
  "map (\<lambda>c. column_name (Clause c)) (get_columns a when (Some pfx)) =
   map (\<lambda>(f, (q, n)). Some (to_sql_name (pfx @ n @ ''_'' @ f)))
       (List.product (functions a) (zip (quantities a) (quantity_names a)))"
  by (simp add: get_columns_def get_column_def case_prod_beta)

lemma column_name_get_aggregates_sql:
  "map (\<lambda>c. column_name (Clause c)) (get_aggregates_sql p i d grp) =
   concat (map (\<lambda>a. map (\<lambda>(f, (q, n)). Some (to_sql_name
                   (prefix p @ ''_'' @ grp @ ''_'' @ remove_char CHR '' '' i @ ''_'' @ n @ ''_'' @ f)))
                 (List.product (functions a) (zip (quantities a) (quantity_names a))))
               (aggregates p))"
  by (simp add: get_aggregates_sql_def Let_def map_concat o_def column_name_get_columns)

lemma column_name_get_select:
  "map column_name (select_columns (get_select p grp intervals d)) =
   [Some grp, Some ''date''] @
   concat (map (\<lambda>i. concat (map (\<lambda>a. map (\<lambda>(f, (q, n)). Some (to_sql_name
                   (prefix p @ ''_'' @ grp @ ''_'' @ remove_char CHR '' '' i @ ''_'' @ n @ ''_'' @ f)))
                 (List.product (functions a) (zip (quantities a) (quantity_names a))))
               (aggregates p))) intervals)"
  by (simp add: get_select_def map_concat o_def column_name_get_aggregates_sql)

lemma get_aggregates_sql_columns:
  "get_aggregates_sql p iv d grp =
     [Label (literal_column
               (if iv = ''all'' then f @ ''('' @ q @ '')''
                else f @ ''(CASE WHEN '' @ [squote] @ d @ [squote] @ '' <= '' @ date_column p @
                     '' + interval '' @ [squote] @ iv @ [squote] @ '' THEN '' @ q @ '' END)''))
            (filter (\<lambda>c. c \<noteq> CHR 0x22)
               (prefix p @ ''_'' @ grp @ ''_'' @ filter (\<lambda>c. c \<noteq> CHR '' '') iv @ ''_'' @
                n @ ''_'' @ f)).
        a \<leftarrow> aggregates p, f \<leftarrow> functions a,
        (q, n) \<leftarrow> zip (quantities a) (quantity_names a)]"
proof (cases "iv = ''all''")
  case True
  then show ?thesis
    by (simp add: get_aggregates_sql_def get_columns_def get_column_def map_product_concat
        to_sql_name_def remove_char_def dquote_def)
next
  case False
  then show ?thesis
    by (simp add: get_aggregates_sql_def get_columns_def get_column_def map_product_concat
        to_sql_name_def remove_char_def dquote_def)
qed

lemma get_select_columns:
  "get_select p grp intervals d =
     Select ([Str grp,
              Clause (Label (literal_column ([squote] @ d @ [squote] @ ''::date'')) ''date'')] @
             [Clause (Label (literal_column
                (if iv = ''all'' then f @ ''('' @ q @ '')''
                 else f @ ''(CASE WHEN '' @ [squote] @ d @ [squote] @ '' <= '' @ date_column p @
                      '' + interval '' @ [squote] @ iv @ [squote] @ '' THEN '' @ q @ '' END)''))
                (filter (\<lambda>c. c \<noteq> CHR 0x22)
                   (prefix p @ ''_'' @ grp @ ''_'' @ filter (\<lambda>c. c \<noteq> CHR '' '') iv @ ''_'' @
                    n @ ''_'' @ f))).
                iv \<leftarrow> intervals, a \<leftarrow> aggregates p, f \<leftarrow> functions a,
                (q, n) \<leftarrow> zip (quantities a) (quantity_names a)])
            (from_obj p)
            (Some (text_clause (date_column p @ '' < '' @ [squote] @ d @ [squote])))
            [Clause (literal_column grp)]"
  by (simp add: get_select_def get_aggregates_sql_columns map_concat o_def split_def)

lemma get_select_all_intervals:
  assumes "set intervals \<subseteq> {''all''}"
  shows "select_columns (get_select p grp intervals d) =
           (select_columns (get_select p grp intervals e))
             [1 := Clause (Label (literal_column ([squote] @ d @ [squote] @ ''::date'')) ''date'')]"
proof -
  have "map (\<lambda>i. get_aggregates_sql p i d grp) intervals =
        map (\<lambda>i. get_aggregates_sql p i e grp) intervals"
  proof (rule map_cong [OF refl])
    fix i
    assume "i \<in> set intervals"
    with assms have "i = ''all''"
      by auto
    then show "get_aggregates_sql p i d grp = get_aggregates_sql p i e grp"
      by (simp only: get_aggregates_sql_all)
  qed
  then have eq: "concat (map (\<lambda>i. get_aggregates_sql p i d grp) intervals) =
                 concat (map (\<lambda>i. get_aggregates_sql p i e grp) intervals)"
    by (rule arg_cong)
  show ?thesis
    unfolding get_select_def Let_def eq by simp
qed

text \<open>
  C8, amended. The selects that \<open>get_selects\<close> holds for one group have the same column
  names in the same order, the same number of columns, the same FROM and the same GROUP
  BY, and two positions with the same reference date hold the same select. The select at
  position k is given in full: the reference date of that position occurs in the second
  column (the date literal), in the WHERE cutoff, and in the window predicate of every
  aggregate column of an interval other than \<open>all\<close>, and nowhere else. When every
  interval of the group is \<open>all\<close>, the columns of two of the selects differ in the date
  literal only.
\<close>

theorem get_selects_same_structure:
  assumes "map_of (get_selects p) grp = Some sels"
    and "i < length sels" and "j < length sels"
  shows "length sels = length (dates p)
    \<and> (dates p ! i = dates p ! j \<longrightarrow> sels ! i = sels ! j)
    \<and> map column_name (select_columns (sels ! i)) = map column_name (select_columns (sels ! j))
    \<and> length (select_columns (sels ! i)) = length (select_columns (sels ! j))
    \<and> select_from (sels ! i) = select_from (sels ! j)
    \<and> select_group_by (sels ! i) = select_group_by (sels ! j)
    \<and> (\<exists>intervals. map_of (group_intervals p) grp = Some intervals
        \<and> (\<forall>k < length sels. sels ! k =
             Select ([Str grp,
                      Clause (Label (literal_column
                                ([squote] @ dates p ! k @ [squote] @ ''::date'')) ''date'')] @
                     [Clause (Label (literal_column
                        (if iv = ''all'' then f @ ''('' @ q @ '')''
                         else f @ ''(CASE WHEN '' @ [squote] @ dates p ! k @ [squote] @ '' <= '' @
                              date_column p @ '' + interval '' @ [squote] @ iv @ [squote] @
                              '' THEN '' @ q @ '' END)''))
                        (filter (\<lambda>c. c \<noteq> CHR 0x22)
                           (prefix p @ ''_'' @ grp @ ''_'' @
                            filter (\<lambda>c. c \<noteq> CHR '' '') iv @ ''_'' @ n @ ''_'' @ f))).
                        iv \<leftarrow> intervals, a \<leftarrow> aggregates p, f \<leftarrow> functions a,
                        (q, n) \<leftarrow> zip (quantities a) (quantity_names a)])
                    (from_obj p)
                    (Some (text_clause
                             (date_column p @ '' < '' @ [squote] @ dates p ! k @ [squote])))
                    [Clause (literal_column grp)])
        \<and> (set intervals \<subseteq> {''all''} \<longrightarrow>
             select_columns (sels ! i) =
               (select_columns (sels ! j))
                 [1 := Clause (Label (literal_column
                                 ([squote] @ dates p ! i @ [squote] @ ''::date'')) ''date'')]))"
proof -
  from assms(1) obtain intervals where
    gi: "map_of (group_intervals p) grp = Some intervals" and
    sels: "sels = map (get_select p grp intervals) (dates p)"
    by (auto simp: get_selects_def map_of_map_keyed)
  have len: "length sels = length (dates p)"
    by (simp add: sels)
  have sk: "sels ! k = get_select p grp intervals (dates p ! k)" if "k < length sels" for k
    using that by (simp add: sels)
  note si = sk [OF assms(2)] and sj = sk [OF assms(3)]
  have same: "dates p ! i = dates p ! j \<longrightarrow> sels ! i = sels ! j"
    by (simp add: si sj)
  have names: "map column_name (select_columns (sels ! i)) =
               map column_name (select_columns (sels ! j))"
    unfolding si sj by (simp only: column_name_get_select)
  from names have count: "length (select_columns (sels ! i)) = length (select_columns (sels ! j))"
    by (rule map_eq_imp_length_eq)
  have from_eq: "select_from (sels ! i) = select_from (sels ! j)"
    and group_by_eq: "select_group_by (sels ! i) = select_group_by (sels ! j)"
    unfolding si sj by (simp_all add: get_select_def)
  have full: "\<forall>k < length sels. sels ! k =
             Select ([Str grp,
                      Clause (Label (literal_column
                                ([squote] @ dates p ! k @ [squote] @ ''::date'')) ''date'')] @
                     [Clause (Label (literal_column
                        (if iv = ''all'' then f @ ''('' @ q @ '')''
                         else f @ ''(CASE WHEN '' @ [squote] @ dates p ! k @ [squote] @ '' <= '' @
                              date_column p @ '' + interval '' @ [squote] @ iv @ [squote] @
                              '' THEN '' @ q @ '' END)''))
                        (filter (\<lambda>c. c \<noteq> CHR 0x22)
                           (prefix p @ ''_'' @ grp @ ''_'' @
                            filter (\<lambda>c. c \<noteq> CHR '' '') iv @ ''_'' @ n @ ''_'' @ f))).
                        iv \<leftarrow> intervals, a \<leftarrow> aggregates p, f \<leftarrow> functions a,
                        (q, n) \<leftarrow> zip (quantities a) (quantity_names a)])
                    (from_obj p)
                    (Some (text_clause
                             (date_column p @ '' < '' @ [squote] @ dates p ! k @ [squote])))
                    [Clause (literal_column grp)]"
  proof (intro allI impI)
    fix k
    assume "k < length sels"
    from sk [OF this] show "sels ! k =
             Select ([Str grp,
                      Clause (Label (literal_column
                                ([squote] @ dates p ! k @ [squote] @ ''::date'')) ''date'')] @
                     [Clause (Label (literal_column
                        (if iv = ''all'' then f @ ''('' @ q @ '')''
                         else f @ ''(CASE WHEN '' @ [squote] @ dates p ! k @ [squote] @ '' <= '' @
                              date_column p @ '' + interval '' @ [squote] @ iv @ [squote] @
                              '' THEN '' @ q @ '' END)''))
                        (filter (\<lambda>c. c \<noteq> CHR 0x22)
                           (prefix p @ ''_'' @ grp @ ''_'' @
                            filter (\<lambda>c. c \<noteq> CHR '' '') iv @ ''_'' @ n @ ''_'' @ f))).
                        iv \<leftarrow> intervals, a \<leftarrow> aggregates p, f \<leftarrow> functions a,
                        (q, n) \<leftarrow> zip (quantities a) (quantity_names a)])
                    (from_obj p)
                    (Some (text_clause
                             (date_column p @ '' < '' @ [squote] @ dates p ! k @ [squote])))
                    [Clause (literal_column grp)]"
      by (simp only: get_select_columns)
  qed
  have only_all: "set intervals \<subseteq> {''all''} \<longrightarrow>
             select_columns (sels ! i) =
               (select_columns (sels ! j))
                 [1 := Clause (Label (literal_column
                                 ([squote] @ dates p ! i @ [squote] @ ''::date'')) ''date'')]"
    unfolding si sj by (intro impI) (rule get_select_all_intervals)
  from gi full only_all have ex: "\<exists>intervals. map_of (group_intervals p) grp = Some intervals
        \<and> (\<forall>k < length sels. sels ! k =
             Select ([Str grp,
                      Clause (Label (literal_column
                                ([squote] @ dates p ! k @ [squote] @ ''::date'')) ''date'')] @
                     [Clause (Label (literal_column
                        (if iv = ''all'' then f @ ''('' @ q @ '')''
                         else f @ ''(CASE WHEN '' @ [squote] @ dates p ! k @ [squote] @ '' <= '' @
                              date_column p @ '' + interval '' @ [squote] @ iv @ [squote] @
                              '' THEN '' @ q @ '' END)''))
                        (filter (\<lambda>c. c \<noteq> CHR 0x22)
                           (prefix p @ ''_'' @ grp @ ''_'' @
                            filter (\<lambda>c. c \<noteq> CHR '' '') iv @ ''_'' @ n @ ''_'' @ f))).
                        iv \<leftarrow> intervals, a \<leftarrow> aggregates p, f \<leftarrow> functions a,
                        (q, n) \<leftarrow> zip (quantities a) (quantity_names a)])
                    (from_obj p)
                    (Some (text_clause
                             (date_column p @ '' < '' @ [squote] @ dates p ! k @ [squote])))
                    [Clause (literal_column grp)])
        \<and> (set intervals \<subseteq> {''all''} \<longrightarrow>
             select_columns (sels ! i) =
               (select_columns (sels ! j))
                 [1 := Clause (Label (literal_column
                                 ([squote] @ dates p ! i @ [squote] @ ''::date'')) ''date'')])"
    by (intro exI [of _ intervals] conjI)
  from len same names count from_eq group_by_eq ex show ?thesis
    by (intro conjI)
qed

text \<open>
  The example plan: six column names, shared by both selects, from the same table and
  with the same GROUP BY.
\<close>

theorem get_selects_same_structure_witness:
  "(\<exists>sels. map_of (get_selects example_plan) ''id'' = Some sels \<and> length sels = 2
     \<and> map column_name (select_columns (sels ! 0)) =
         [Some ''id'', Some ''date'', Some ''t_id_1month_amount_sum'',
          Some ''t_id_1month_amount_count'', Some ''t_id_all_amount_sum'',
          Some ''t_id_all_amount_count'']
     \<and> map column_name (select_columns (sels ! 1)) =
         map column_name (select_columns (sels ! 0))
     \<and> length (select_columns (sels ! 1)) = length (select_columns (sels ! 0))
     \<and> select_from (sels ! 1) = select_from (sels ! 0)
     \<and> select_group_by (sels ! 1) = select_group_by (sels ! 0))"
proof -
  define sels where "sels = map (get_select example_plan ''id'' [''1 month'', ''all''])
                                 (dates example_plan)"
  have h: "map_of (get_selects example_plan) ''id'' = Some sels"
    by (simp add: get_selects_def sels_def example_plan_def)
  have l: "length sels = 2"
    by (simp add: sels_def example_plan_def)
  have n0: "map column_name (select_columns (sels ! 0)) =
         [Some ''id'', Some ''date'', Some ''t_id_1month_amount_sum'',
          Some ''t_id_1month_amount_count'', Some ''t_id_all_amount_sum'',
          Some ''t_id_all_amount_count'']"
    by (simp add: sels_def example_plan_def get_select_def get_aggregates_sql_def
        get_columns_def get_column_def to_sql_name_def remove_char_def dquote_def)
  have i: "1 < length sels" and j: "0 < length sels"
    using l by simp_all
  note t = get_selects_same_structure [OF h i j]
  note n1 = t [THEN conjunct2, THEN conjunct2, THEN conjunct1]
  note c1 = t [THEN conjunct2, THEN conjunct2, THEN conjunct2, THEN conjunct1]
  note f1 = t [THEN conjunct2, THEN conjunct2, THEN conjunct2, THEN conjunct2, THEN conjunct1]
  note g1 = t [THEN conjunct2, THEN conjunct2, THEN conjunct2, THEN conjunct2, THEN conjunct2,
               THEN conjunct1]
  from h l n0 n1 c1 f1 g1 show ?thesis
    by (intro exI [of _ sels] conjI)
qed

text \<open>
  C8 as stated fails on the example plan: its two selects for the group \<open>id\<close> differ
  also in the third column, the sum over the interval \<open>1 month\<close>, whose window predicate
  holds the reference date; this column is neither the date literal nor the WHERE
  cutoff.
\<close>

theorem get_selects_window_counterexample:
  "get_selects example_plan =
     [(''id'', [get_select example_plan ''id'' [''1 month'', ''all''] ''2016-01-01'',
               get_select example_plan ''id'' [''1 month'', ''all''] ''2016-02-01''])]
   \<and> select_columns (get_select example_plan ''id'' [''1 month'', ''all''] ''2016-01-01'') ! 2 =
       Clause (Label (literal_column
         ''sum(CASE WHEN '2016-01-01' <= date + interval '1 month' THEN amount END)'')
         ''t_id_1month_amount_sum'')
   \<and> select_columns (get_select example_plan ''id'' [''1 month'', ''all''] ''2016-02-01'') ! 2 =
       Clause (Label (literal_column
         ''sum(CASE WHEN '2016-02-01' <= date + interval '1 month' THEN amount END)'')
         ''t_id_1month_amount_sum'')"
proof -
  have 1: "get_selects example_plan =
     [(''id'', [get_select example_plan ''id'' [''1 month'', ''all''] ''2016-01-01'',
               get_select example_plan ''id'' [''1 month'', ''all''] ''2016-02-01''])]"
    by (simp add: get_selects_def example_plan_def)
  have 2: "select_columns (get_select example_plan ''id'' [''1 month'', ''all''] d) ! 2 =
       Clause (Label (literal_column
         (''sum(CASE WHEN '' @ [squote] @ d @ [squote] @
          '' <= date + interval '1 month' THEN amount END)''))
         ''t_id_1month_amount_sum'')" for d
    by (simp add: get_select_def get_aggregates_sql_def get_columns_def get_column_def
        to_sql_name_def remove_char_def dquote_def squote_def example_plan_def numeral_2_eq_2)
  from 1 2 [of "''2016-01-01''"] 2 [of "''2016-02-01''"] show ?thesis
    by (simp add: squote_def)
qed

section \<open>Creates, drops and indexes per group\<close>

text \<open>
  The fold of \<open>get_creates\<close> over the selects of one group, by the number of reference
  dates: nothing to fold, one select returned as it is, one call of \<open>union_all\<close> on a
  select, and from the third select on a call of \<open>union_all\<close> on the compound select
  that the first call returned.
\<close>

lemma reduce_union_all_get_select:
  "reduce union_all (map (get_select p grp intervals) ds) =
     (case ds of
        [] \<Rightarrow> Inl TypeError
      | [d] \<Rightarrow> Inr (get_select p grp intervals d)
      | [d, e] \<Rightarrow> Inr (CompoundSelect (get_select p grp intervals d)
                                      (get_select p grp intervals e))
      | d # e # f # rest \<Rightarrow> Inl AttributeError)"
  by (simp add: get_select_def split: list.splits)

lemma union_all_get_select:
  "union_all (get_select p grp intervals d) t =
     Inr (CompoundSelect (get_select p grp intervals d) t)"
  by (simp add: get_select_def)

lemma union_selects_raises:
  assumes "\<And>g iv. reduce union_all (F g iv) = Inl e" and "gi \<noteq> []"
  shows "union_selects (map (\<lambda>(g, iv). (g, F g iv)) gi) = Inl e"
  using assms by (cases gi) auto

lemma union_selects_returns:
  assumes "\<And>g iv. reduce union_all (F g iv) = Inr (U g iv)"
  shows "union_selects (map (\<lambda>(g, iv). (g, F g iv)) gi) = Inr (map (\<lambda>(g, iv). (g, U g iv)) gi)"
  by (induction gi) (auto simp: assms)

lemma get_creates_raises:
  assumes "\<And>g iv. reduce union_all (map (get_select p g iv) (dates p)) = Inl e"
    and "group_intervals p \<noteq> []"
  shows "get_creates p None = Inl e"
proof -
  have "union_selects (get_selects p) = Inl e"
    unfolding get_selects_def
    by (rule union_selects_raises [where F = "\<lambda>g iv. map (get_select p g iv) (dates p)"])
       (rule assms)+
  then show ?thesis
    by (simp add: get_creates_def)
qed

lemma get_creates_returns:
  assumes "\<And>g iv. reduce union_all (map (get_select p g iv) (dates p)) = Inr (U g iv)"
  shows "get_creates p None =
    Inr (map (\<lambda>(g, iv). (g, CreateTableAs (get_table_name p g) (U g iv))) (group_intervals p))"
proof -
  have "union_selects (get_selects p) = Inr (map (\<lambda>(g, iv). (g, U g iv)) (group_intervals p))"
    unfolding get_selects_def
    by (rule union_selects_returns [where F = "\<lambda>g iv. map (get_select p g iv) (dates p)"])
       (rule assms)
  then show ?thesis
    by (simp add: get_creates_def o_def case_prod_beta)
qed

text \<open>
  What \<open>get_creates\<close> without a selects argument does on every plan: on a plan with a
  group it returns the tables only for one or two reference dates, and raises for none
  and for three or more.
\<close>

lemma get_creates_by_dates:
  "get_creates p None =
     (if group_intervals p = [] then Inr []
      else case dates p of
        [] \<Rightarrow> Inl TypeError
      | [d] \<Rightarrow>
          Inr (map (\<lambda>(g, iv). (g, CreateTableAs (get_table_name p g) (get_select p g iv d)))
                   (group_intervals p))
      | [d, e] \<Rightarrow>
          Inr (map (\<lambda>(g, iv). (g, CreateTableAs (get_table_name p g)
                                   (CompoundSelect (get_select p g iv d) (get_select p g iv e))))
                   (group_intervals p))
      | d # e # f # rest \<Rightarrow> Inl AttributeError)"
proof (cases "group_intervals p = []")
  case True
  then show ?thesis
    by (simp add: get_creates_def get_selects_def)
next
  case groups: False
  show ?thesis
  proof (cases "dates p")
    case Nil
    have "get_creates p None = Inl TypeError"
      by (rule get_creates_raises [OF _ groups]) (simp add: Nil)
    with groups Nil show ?thesis
      by simp
  next
    case one: (Cons d ds)
    show ?thesis
    proof (cases ds)
      case Nil
      have "get_creates p None =
        Inr (map (\<lambda>(g, iv). (g, CreateTableAs (get_table_name p g) (get_select p g iv d)))
                 (group_intervals p))"
        by (rule get_creates_returns) (simp add: one Nil union_all_get_select)
      with groups one Nil show ?thesis
        by simp
    next
      case two: (Cons e es)
      show ?thesis
      proof (cases es)
        case Nil
        have "get_creates p None =
          Inr (map (\<lambda>(g, iv). (g, CreateTableAs (get_table_name p g)
                                   (CompoundSelect (get_select p g iv d) (get_select p g iv e))))
                   (group_intervals p))"
          by (rule get_creates_returns) (simp add: one two Nil union_all_get_select)
        with groups one two Nil show ?thesis
          by simp
      next
        case (Cons f rest)
        have "get_creates p None = Inl AttributeError"
          by (rule get_creates_raises [OF _ groups])
             (simp add: one two Cons union_all_get_select)
        with groups one two Cons show ?thesis
          by simp
      qed
    qed
  qed
qed

text \<open>
  C4. For a group with k reference dates \<open>get_creates\<close> is to combine the k selects of
  the group by repeated UNION ALL into one CREATE TABLE statement, and its documentation
  promises a dictionary of such statements; the code does so for k = 1 and k = 2 only.
  On the example plan with a third reference date \<open>get_selects\<close> holds three selects
  for the group \<open>id\<close>, and \<open>get_creates\<close> raises an AttributeError: the fold calls
  \<open>union_all\<close> on the compound select of the first two. With no reference date it
  raises a TypeError. With the two dates of the example plan it returns the table
  \<open>"t_id"\<close> of the compound select of the two selects.
\<close>

theorem get_creates_three_dates:
  "map (\<lambda>(g, sels). (g, length sels)) (get_selects three_dates_plan) = [(''id'', 3)]
   \<and> get_creates three_dates_plan None = Inl AttributeError
   \<and> get_creates (example_plan\<lparr>dates := []\<rparr>) None = Inl TypeError
   \<and> get_creates example_plan None =
       Inr [(''id'', CreateTableAs ([dquote] @ ''t_id'' @ [dquote])
                      (CompoundSelect
                         (get_select example_plan ''id'' [''1 month'', ''all''] ''2016-01-01'')
                         (get_select example_plan ''id'' [''1 month'', ''all''] ''2016-02-01'')))]"
proof -
  have 1: "map (\<lambda>(g, sels). (g, length sels)) (get_selects three_dates_plan) = [(''id'', 3)]"
    by (simp add: get_selects_def three_dates_plan_def example_plan_def)
  have 2: "get_creates three_dates_plan None = Inl AttributeError"
    by (simp add: get_creates_by_dates three_dates_plan_def example_plan_def)
  have 3: "get_creates (example_plan\<lparr>dates := []\<rparr>) None = Inl TypeError"
    by (simp add: get_creates_by_dates example_plan_def)
  have 4: "get_creates example_plan None =
       Inr [(''id'', CreateTableAs ([dquote] @ ''t_id'' @ [dquote])
                      (CompoundSelect
                         (get_select example_plan ''id'' [''1 month'', ''all''] ''2016-01-01'')
                         (get_select example_plan ''id'' [''1 month'', ''all''] ''2016-02-01'')))]"
  proof -
    have g: "group_intervals example_plan = [(''id'', [''1 month'', ''all''])]"
      and d: "dates example_plan = [''2016-01-01'', ''2016-02-01'']"
      and n: "get_table_name example_plan ''id'' = [dquote] @ ''t_id'' @ [dquote]"
      by (simp_all add: example_plan_def get_table_name_def to_sql_name_def remove_char_def
          dquote_def)
    show ?thesis
      by (simp add: get_creates_by_dates g d n)
  qed
  from 1 2 3 4 show ?thesis
    by (intro conjI)
qed

lemma keys_get_selects: "map fst (get_selects p) = map fst (group_intervals p)"
  by (simp add: get_selects_def case_prod_beta)

lemma keys_get_drops: "map fst (get_drops p) = map fst (group_intervals p)"
  by (simp add: get_drops_def groups_def o_def)

lemma keys_get_indexes: "map fst (get_indexes p) = map fst (group_intervals p)"
  by (simp add: get_indexes_def groups_def o_def)

lemma keys_get_creates:
  assumes "get_creates p None = Inr creates"
  shows "map fst creates = map fst (group_intervals p)"
  using assms
  by (auto simp: get_creates_by_dates case_prod_beta o_def split: if_splits list.splits)

text \<open>
  C10. Each of the four methods is to return a dictionary whose keys are the keys of
  \<open>group_intervals\<close>, as the documentation of each of them promises. On the plan of the groups \<open>id\<close> and \<open>zip\<close> with three
  reference dates, \<open>get_selects\<close>, \<open>get_drops\<close> and \<open>get_indexes\<close> return dictionaries with
  exactly these two keys, while \<open>get_creates\<close> without a selects argument returns no
  dictionary: it raises the AttributeError of the fold over three selects, and on the
  same plan without a reference date the TypeError of the fold over none.
\<close>

theorem get_creates_no_dictionary:
  "map fst (group_intervals events_plan) = [''id'', ''zip'']
   \<and> map fst (get_selects events_plan) = [''id'', ''zip'']
   \<and> map fst (get_drops events_plan) = [''id'', ''zip'']
   \<and> map fst (get_indexes events_plan) = [''id'', ''zip'']
   \<and> get_creates events_plan None = Inl AttributeError
   \<and> get_creates (events_plan\<lparr>dates := []\<rparr>) None = Inl TypeError"
proof -
  have g: "map fst (group_intervals events_plan) = [''id'', ''zip'']"
    by (simp add: events_plan_def)
  have 1: "map fst (get_selects events_plan) = [''id'', ''zip'']"
    by (simp add: keys_get_selects g)
  have 2: "map fst (get_drops events_plan) = [''id'', ''zip'']"
    by (simp add: keys_get_drops g)
  have 3: "map fst (get_indexes events_plan) = [''id'', ''zip'']"
    by (simp add: keys_get_indexes g)
  have 4: "get_creates events_plan None = Inl AttributeError"
    by (simp add: get_creates_by_dates events_plan_def)
  have 5: "get_creates (events_plan\<lparr>dates := []\<rparr>) None = Inl TypeError"
    by (simp add: get_creates_by_dates events_plan_def)
  from g 1 2 3 4 5 show ?thesis
    by (intro conjI)
qed

section \<open>Identifiers in the generated statements\<close>

lemma to_sql_name_no_quote: "dquote \<notin> set (to_sql_name s)"
  by (simp add: to_sql_name_def remove_char_def)

lemma get_columns_labels:
  "c \<in> set (get_columns a when prefix_arg) \<Longrightarrow>
   \<exists>e n. c = Label (literal_column e) n \<and> dquote \<notin> set n"
  by (auto simp: get_columns_def get_column_def Let_def to_sql_name_no_quote)

lemma get_creates_names:
  assumes "get_creates p selects_arg = Inr creates" and "(g, c) \<in> set creates"
  shows "name c = get_table_name p g"
  using assms by (auto simp: get_creates_def split: sum.splits)

text \<open>
  Claim C7, amended. The table name of a group is rendered by one rule wherever it
  appears: the quote characters are stripped from \<open><prefix>_<group>\<close> and the result is
  wrapped in double quotes. This is the name of every statement of \<open>get_creates\<close>, the
  table of every statement of \<open>get_drops\<close> and \<open>get_indexes\<close>, and the table of every
  LEFT JOIN of \<open>get_create\<close>. Every column of \<open>get_columns\<close> is a literal column under a
  label that holds no quote character. The group key as the index column and as the
  USING column is emitted as it was given.
\<close>

theorem table_names_sanitized:
  "get_table_name p grp =
     [dquote] @ filter (\<lambda>c. c \<noteq> dquote) (prefix p @ ''_'' @ grp) @ [dquote]
   \<and> (\<forall>creates. get_creates p selects_arg = Inr creates \<longrightarrow>
        (\<forall>(g, c) \<in> set creates. name c = get_table_name p g))
   \<and> get_drops p =
       map (\<lambda>g. (g, ''DROP TABLE IF EXISTS '' @ get_table_name p g @ '';'')) (groups p)
   \<and> get_indexes p =
       map (\<lambda>g. (g, ''CREATE INDEX ON '' @ get_table_name p g @ '' ('' @ g @ '', date);''))
           (groups p)
   \<and> (\<exists>front. get_create str_clause p join_table_arg =
        front @ concat (map (\<lambda>g. ''LEFT JOIN '' @ get_table_name p g @
                                  '' USING ('' @ g @ '', date)'') (groups p)) @ '');'')
   \<and> (\<forall>c \<in> set (get_columns a when prefix_arg).
        \<exists>e n. c = Label (literal_column e) n \<and> dquote \<notin> set n)"
proof -
  have 1: "get_table_name p grp =
     [dquote] @ filter (\<lambda>c. c \<noteq> dquote) (prefix p @ ''_'' @ grp) @ [dquote]"
    by (simp add: get_table_name_def to_sql_name_def remove_char_def)
  have 2: "\<forall>creates. get_creates p selects_arg = Inr creates \<longrightarrow>
        (\<forall>(g, c) \<in> set creates. name c = get_table_name p g)"
    using get_creates_names by blast
  have 3: "get_drops p =
       map (\<lambda>g. (g, ''DROP TABLE IF EXISTS '' @ get_table_name p g @ '';'')) (groups p)"
    by (simp add: get_drops_def)
  have 4: "get_indexes p =
       map (\<lambda>g. (g, ''CREATE INDEX ON '' @ get_table_name p g @ '' ('' @ g @ '', date);''))
           (groups p)"
    by (simp add: get_indexes_def)
  have 5: "\<exists>front. get_create str_clause p join_table_arg =
        front @ concat (map (\<lambda>g. ''LEFT JOIN '' @ get_table_name p g @
                                  '' USING ('' @ g @ '', date)'') (groups p)) @ '');''"
    unfolding get_create_def Let_def
    by (intro exI [of _ "''CREATE TABLE '' @ (prefix p @ ''_'' @ suffix p) @ '' AS ('' @
         ''SELECT * FROM '' @ or_default join_table_arg
                         (''('' @ str_clause (get_join_table p) @ '') t1'') @ [CHR 0x0A] @
         ''CROSS JOIN (select unnest('' @ [squote] @ ''{'' @ join '','' (dates p) @
         ''}'' @ [squote] @ ''::date[]) as date) t2'' @ [CHR 0x0A]"]) simp
  have 6: "\<forall>c \<in> set (get_columns a when prefix_arg).
        \<exists>e n. c = Label (literal_column e) n \<and> dquote \<notin> set n"
    by (intro ballI) (rule get_columns_labels)
  from 1 2 3 4 5 6 show ?thesis
    by (intro conjI)
qed

text \<open>
  The theorem at \<open>quoted_plan\<close>: the group \<open>lower("Name")\<close> gets the table
  \<open>"t_lower(Name)"\<close> in \<open>get_creates\<close>, and the quantity name \<open>"Total"\<close> gives the label
  \<open>t_Total_sum\<close>.
\<close>

theorem table_names_sanitized_witness:
  "get_table_name quoted_plan (''lower('' @ [dquote] @ ''Name'' @ [dquote] @ '')'') =
     [dquote] @ ''t_lower(Name)'' @ [dquote]
   \<and> (\<exists>creates. get_creates quoted_plan None = Inr creates
        \<and> map name (map snd creates) = [[dquote] @ ''t_lower(Name)'' @ [dquote]])
   \<and> get_columns \<lparr>quantities = [''amount''], functions = [''sum''],
         quantity_names = [[dquote] @ ''Total'' @ [dquote]]\<rparr> None (Some ''t_'') =
       [Label (literal_column ''sum(amount)'') ''t_Total_sum'']"
proof -
  let ?g = "''lower('' @ [dquote] @ ''Name'' @ [dquote] @ '')''"
  let ?a = "\<lparr>quantities = [''amount''], functions = [''sum''],
         quantity_names = [[dquote] @ ''Total'' @ [dquote]]\<rparr>"
  note t = table_names_sanitized [of quoted_plan ?g None _ _ ?a None "Some ''t_''"]
  have 1: "get_table_name quoted_plan ?g = [dquote] @ ''t_lower(Name)'' @ [dquote]"
    using t [THEN conjunct1] by (simp add: quoted_plan_def dquote_def)
  obtain creates where c: "get_creates quoted_plan None = Inr creates"
    and k: "creates = [(?g, CreateTableAs (get_table_name quoted_plan ?g)
                           (get_select quoted_plan ?g [''all''] ''2016-01-01''))]"
    by (simp add: get_creates_def get_selects_def quoted_plan_def)
  from t [THEN conjunct2, THEN conjunct1] c
  have "\<forall>(g, c) \<in> set creates. name c = get_table_name quoted_plan g"
    by blast
  with k have "map name (map snd creates) = [get_table_name quoted_plan ?g]"
    by simp
  with 1 c have 2: "\<exists>creates. get_creates quoted_plan None = Inr creates
        \<and> map name (map snd creates) = [[dquote] @ ''t_lower(Name)'' @ [dquote]]"
    by simp
  have 3: "get_columns ?a None (Some ''t_'') =
       [Label (literal_column ''sum(amount)'') ''t_Total_sum'']"
    by (simp add: get_columns_def get_column_def to_sql_name_def remove_char_def dquote_def)
  from 1 2 3 show ?thesis
    by (intro conjI)
qed

text \<open>
  Claim C7 as stated fails on the index columns: the index statement of
  \<open>quoted_plan\<close> holds the group key \<open>lower("Name")\<close> with its quote characters, neither
  stripped nor wrapped in quotes.
\<close>

theorem index_columns_raw_counterexample:
  "get_indexes quoted_plan =
     [(''lower('' @ [dquote] @ ''Name'' @ [dquote] @ '')'',
       ''CREATE INDEX ON '' @ [dquote] @ ''t_lower(Name)'' @ [dquote] @
       '' (lower('' @ [dquote] @ ''Name'' @ [dquote] @ ''), date);'')]"
  by (simp add: get_indexes_def groups_def get_table_name_def to_sql_name_def remove_char_def
      quoted_plan_def dquote_def)

section \<open>The final table\<close>

lemma join_concat:
  "join sep xs = (case xs of [] \<Rightarrow> [] | x # rest \<Rightarrow> x @ concat (map (\<lambda>y. sep @ y) rest))"
  by (induction sep xs rule: join.induct) simp_all

text \<open>
  Claim C5. With no \<open>join_table\<close> argument \<open>get_create\<close> returns
  \<open>CREATE TABLE <prefix>_<suffix> AS (<query>);\<close> where the query selects everything from
  the rendered select of the group keys from the source grouped by the group keys, named
  \<open>t1\<close>, cross joined with the unnested literal array of all reference dates, separated
  by commas, as the column \<open>date\<close>, followed by one
  \<open>LEFT JOIN <table of the group> USING (<group>, date)\<close> per group key, the table of a
  group being the prefix, an underscore and the group without quote characters, between
  double quotes.
\<close>

theorem get_create_statement:
  "get_create str_clause p None =
     ''CREATE TABLE '' @ prefix p @ ''_'' @ suffix p @ '' AS ('' @
       ''SELECT * FROM ('' @
         str_clause (Select (map Str (map fst (group_intervals p))) (from_obj p) None
                            (map Str (map fst (group_intervals p)))) @
       '') t1'' @ [CHR 0x0A] @
       ''CROSS JOIN (select unnest('' @ [CHR 0x27] @ ''{'' @
         (case dates p of [] \<Rightarrow> [] | d # ds \<Rightarrow> d @ concat (map (\<lambda>x. '','' @ x) ds)) @
         ''}'' @ [CHR 0x27] @ ''::date[]) as date) t2'' @ [CHR 0x0A] @
       concat (map (\<lambda>g. ''LEFT JOIN '' @ [CHR 0x22] @
                          filter (\<lambda>c. c \<noteq> CHR 0x22) (prefix p @ ''_'' @ g) @ [CHR 0x22] @
                          '' USING ('' @ g @ '', date)'')
                   (map fst (group_intervals p))) @
     '');''"
  by (simp add: get_create_def get_join_table_def groups_def get_table_name_def
      to_sql_name_def remove_char_def dquote_def squote_def join_concat)

text \<open>
  The statement of the example plan, for every rendering of the select of the group
  keys: the array holds both reference dates.
\<close>

theorem get_create_statement_witness:
  "\<forall>str_clause. get_create str_clause example_plan None =
     ''CREATE TABLE t_aggregation AS (SELECT * FROM ('' @
       str_clause (Select [Str ''id''] (table ''t'') None [Str ''id'']) @ '') t1'' @ [CHR 0x0A] @
     ''CROSS JOIN (select unnest('{2016-01-01,2016-02-01}'::date[]) as date) t2'' @ [CHR 0x0A] @
     ''LEFT JOIN '' @ [CHR 0x22] @ ''t_id'' @ [CHR 0x22] @ '' USING (id, date));''"
  using get_create_statement [of _ example_plan]
  by (simp add: example_plan_def)

end
